theory Spec2Isabelle
  imports Complex_Main "HOL-Library.AList" "HOL-Library.Sublist" "HOL-Library.Code_Target_Nat"
begin

section \<open>Values of the script\<close>

text \<open>
  The script \<^verbatim>\<open>tienda/static/tienda/script.js\<close> keeps a cart in a plain object and
  redraws a summary after each click. Its strings are modelled as \<^typ>\<open>string\<close>, every
  \<^typ>\<open>char\<close> read as the code unit of the same number (U+0000 to U+00FF).

  A JavaScript number is \<open>NaN\<close> or \<open>Num r\<close>, where \<open>Num r\<close> stands for the Number
  value of the rational \<open>r\<close>: the binary64 value that \<open>r\<close> rounds to, which is
  \<^verbatim>\<open>Infinity\<close> from \<open>2^1024 - 2^970\<close> on. The two zeros are not told apart (nor does
  \<^verbatim>\<open>===\<close> tell them apart).
\<close>

datatype jsnum = NaN | Num rat

subsection \<open>Rounding to binary64\<close>

text \<open>Rounding to the nearest integer, a tie going to the even one.\<close>

definition round_half_even :: "rat \<Rightarrow> int" where
  "round_half_even x =
     (let f = \<lfloor>x\<rfloor>; d = x - of_int f
      in if d < 1 / 2 then f else if 1 / 2 < d then f + 1 else if even f then f else f + 1)"

text \<open>
  Every finite binary64 value is \<open>m * 2^k\<close> units of \<open>2^-1074\<close> with \<open>m < 2^53\<close>.
  For a number of \<open>n\<close> units (rounded down), \<open>ulp_exp n\<close> is the \<open>k\<close> of its binade:
  \<open>0\<close> below \<open>2^53\<close> units, which covers the subnormal numbers, and one more each time
  the number doubles.
\<close>

function ulp_exp :: "nat \<Rightarrow> nat" where
  "ulp_exp n = (if n < 2 ^ 53 then 0 else Suc (ulp_exp (n div 2)))"
  by pat_completeness auto
termination
  by (relation "measure id") auto

declare ulp_exp.simps [simp del]

text \<open>
  The Number value of a rational, as a rational: round to nearest, ties to even, on the
  grid of its binade; what reaches \<open>2^1024\<close> becomes \<open>2^1024\<close> with the sign, which
  stands for the infinity of that sign.
\<close>

definition binary64 :: "rat \<Rightarrow> rat" where
  "binary64 r =
     (let a = \<bar>r\<bar> * 2 ^ 1074;
          k = ulp_exp (nat \<lfloor>a\<rfloor>);
          m = of_int (round_half_even (a / 2 ^ k)) * 2 ^ k
      in if 2 ^ 2098 \<le> m then sgn r * 2 ^ 1024 else sgn r * m / 2 ^ 1074)"

definition is_infinite :: "rat \<Rightarrow> bool" where
  "is_infinite x = (2 ^ 1024 \<le> \<bar>x\<bar>)"

text \<open>
  \<^verbatim>\<open>+\<close> and \<^verbatim>\<open>*\<close> on numbers: the operands are read as Number values, the exact
  result is rounded. Infinities of opposite signs add up to \<open>NaN\<close>, and an infinity
  times zero is \<open>NaN\<close>.
\<close>

fun js_add :: "jsnum \<Rightarrow> jsnum \<Rightarrow> jsnum" where
  "js_add (Num a) (Num b) =
     (let x = binary64 a; y = binary64 b
      in if is_infinite x \<and> is_infinite y then (if x = y then Num x else NaN)
         else if is_infinite x then Num x
         else if is_infinite y then Num y
         else Num (binary64 (x + y)))"
| "js_add _ _ = NaN"

fun js_mul :: "jsnum \<Rightarrow> jsnum \<Rightarrow> jsnum" where
  "js_mul (Num a) (Num b) =
     (let x = binary64 a; y = binary64 b
      in if is_infinite x \<or> is_infinite y
         then (if x = 0 \<or> y = 0 then NaN else Num (sgn x * sgn y * 2 ^ 1024))
         else Num (binary64 (x * y)))"
| "js_mul _ _ = NaN"

fun isNaN :: "jsnum \<Rightarrow> bool" where
  "isNaN NaN = True"
| "isNaN (Num _) = False"

section \<open>parsePrice\<close>

text \<open>The class \<^verbatim>\<open>\d\<close> of a JavaScript regular expression: the ten ASCII digits.\<close>

definition is_digit :: "char \<Rightarrow> bool" where
  "is_digit c = (c \<in> set ''0123456789'')"

definition digit_val :: "char \<Rightarrow> nat" where
  "digit_val c = of_char c - 48"

text \<open>
  The mathematical value of a run of decimal digits, as ECMAScript defines it:
  the value of the digits before the last one times ten, plus the last one.
\<close>

definition digits_to_nat :: "string \<Rightarrow> nat" where
  "digits_to_nat ds = foldl (\<lambda>acc c. 10 * acc + digit_val c) 0 ds"

text \<open>
  The value of \<open>ip.fp\<close>: the value of \<open>ip\<close> plus the value of \<open>fp\<close> times
  \<open>10\<close> to the minus number of digits of \<open>fp\<close>.
\<close>

definition decimal_value :: "string \<Rightarrow> string \<Rightarrow> rat" where
  "decimal_value ip fp = of_nat (digits_to_nat ip) + of_nat (digits_to_nat fp) / 10 ^ length fp"

text \<open>
  \<^verbatim>\<open>priceString.replace(/[^\d,]/g, '')\<close>: every character that is neither a digit nor
  a comma is removed.
\<close>

definition cleanedPrice :: "string \<Rightarrow> string" where
  "cleanedPrice priceString = filter (\<lambda>c. is_digit c \<or> c = CHR '','') priceString"

text \<open>
  \<^verbatim>\<open>cleanedPrice.replace(',', '.')\<close>: a string pattern replaces the first occurrence
  only.
\<close>

fun replace_comma :: "string \<Rightarrow> string" where
  "replace_comma [] = []"
| "replace_comma (c # cs) = (if c = CHR '','' then CHR ''.'' # cs else c # replace_comma cs)"

definition finalPrice :: "string \<Rightarrow> string" where
  "finalPrice priceString = replace_comma (cleanedPrice priceString)"

text \<open>
  \<^verbatim>\<open>parseFloat\<close> reads the longest prefix of its argument that is a decimal literal and
  returns \<open>NaN\<close> when there is none. The argument here is made of digits, commas and
  at most one dot (lemma \<open>finalPrice_chars\<close>), so that white space, a sign, an exponent
  and \<^verbatim>\<open>Infinity\<close> cannot occur; the literal is then \<open>digits\<close>, \<open>digits.\<close>,
  \<open>digits.digits\<close> or \<open>.digits\<close>.
\<close>

definition parseFloat :: "string \<Rightarrow> jsnum" where
  "parseFloat s =
     (let ip = takeWhile is_digit s; r = dropWhile is_digit s
      in case r of
           [] \<Rightarrow> (if ip = [] then NaN else Num (of_nat (digits_to_nat ip)))
         | c # r' \<Rightarrow>
             if c = CHR ''.''
             then (let fp = takeWhile is_digit r'
                   in if ip = [] \<and> fp = [] then NaN else Num (decimal_value ip fp))
             else (if ip = [] then NaN else Num (of_nat (digits_to_nat ip))))"

text \<open>
  \<^verbatim>\<open>parsePrice\<close>. The argument is \<^verbatim>\<open>item.dataset.precio\<close>: \<open>None\<close> is
  \<^verbatim>\<open>undefined\<close> or \<^verbatim>\<open>null\<close>, which are falsy as the empty string is.
\<close>

definition parsePrice :: "string option \<Rightarrow> jsnum" where
  "parsePrice priceString =
     (case priceString of
        None \<Rightarrow> Num 0
      | Some s \<Rightarrow>
          if s = [] then Num 0
          else (let parsedPrice = parseFloat (finalPrice s)
                in if isNaN parsedPrice then Num 0 else parsedPrice))"

text \<open>
  The number a price text is meant to denote, read off the text and not off the parser:
  the digits before and after the decimal comma, taken as one integer, divided by ten
  to the number of decimals.
\<close>

definition denoted_value :: "string \<Rightarrow> string \<Rightarrow> rat" where
  "denoted_value ip fp = of_nat (digits_to_nat (ip @ fp)) / 10 ^ length fp"

section \<open>The page and the cart\<close>

text \<open>
  A line of the cart, as the click handler of the add button builds it:
  \<^verbatim>\<open>{ name, price, presentation, content, quantity: 0 }\<close>. The quantity starts at
  \<open>0\<close> and only changes by \<open>1\<close>, so it is a natural number.
\<close>

record cart_line =
  name :: string
  price :: jsnum
  presentation :: string
  content :: string
  quantity :: nat

text \<open>
  An element of class \<^verbatim>\<open>product-item\<close>: its \<^verbatim>\<open>data-\<close> attributes, the text of its
  \<^verbatim>\<open>.quantity-display\<close> and whether it carries the class \<^verbatim>\<open>hidden\<close>. The script
  gives \<^verbatim>\<open>presentacion\<close> and \<^verbatim>\<open>contenido\<close> a default and lets \<^verbatim>\<open>parsePrice\<close>
  deal with a missing \<^verbatim>\<open>precio\<close>; it uses \<^verbatim>\<open>id\<close> and \<^verbatim>\<open>nombre\<close> as they are,
  so these two are taken to be present.
\<close>

record product_item =
  data_id :: string
  data_nombre :: string
  data_presentacion :: "string option"
  data_contenido :: "string option"
  data_precio :: "string option"
  quantity_display :: string
  hidden :: bool

text \<open>
  A child of \<^verbatim>\<open>#summary-list\<close>: the paragraph of class \<^verbatim>\<open>empty-message\<close>, or a
  \<^verbatim>\<open>summary-item\<close> with the texts of its two spans.
\<close>

datatype summary_node = EmptyMessage | SummaryItem string string

text \<open>
  What the handlers read and write: the product elements, the object \<^verbatim>\<open>cart\<close> (its
  own properties in insertion order, which is the order of \<^verbatim>\<open>for ... in\<close> and of
  \<^verbatim>\<open>Object.keys\<close> for keys that are not array indices), the summary list, the text of
  \<^verbatim>\<open>#summary-total\<close> and its class \<^verbatim>\<open>empty\<close>, the \<^verbatim>\<open>disabled\<close> flag of the
  checkout button, and the messages shown by \<^verbatim>\<open>alert\<close>.
\<close>

record page =
  productItems :: "product_item list"
  cart :: "(string \<times> cart_line) list"
  summaryList :: "summary_node list"
  summaryTotal :: string
  summaryTotal_empty :: bool
  checkout_disabled :: bool
  alerts :: "string list"

subsection \<open>Numbers as text\<close>

definition digit_char :: "nat \<Rightarrow> char" where
  "digit_char d = ''0123456789'' ! d"

text \<open>The decimal text of a quantity, as the page shows a number.\<close>

function string_of_nat :: "nat \<Rightarrow> string" where
  "string_of_nat n =
     (if n < 10 then [digit_char n] else string_of_nat (n div 10) @ [digit_char (n mod 10)])"
  by pat_completeness auto
termination
  by (relation "measure id") auto

declare string_of_nat.simps [simp del]

text \<open>
  \<^verbatim>\<open>quantity += 1\<close> on a double: exact up to \<open>2^53\<close>, where adding one rounds back
  to the same number.
\<close>

definition js_inc :: "nat \<Rightarrow> nat" where
  "js_inc q = (if q < 9007199254740992 then q + 1 else q)"

subsection \<open>updateSummary\<close>

text \<open>
  The body of the \<^verbatim>\<open>for (const key in cart)\<close> loop: the running \<^verbatim>\<open>total\<close> (written \<open>total'\<close>) and the
  children appended to the summary list so far. \<open>fmt\<close> is \<^verbatim>\<open>formatter.format\<close> of
  the \<^verbatim>\<open>Intl.NumberFormat\<close> for \<^verbatim>\<open>es-AR\<close> and \<^verbatim>\<open>ARS\<close>, which the script does not
  define.
\<close>

definition presentationText :: "cart_line \<Rightarrow> string" where
  "presentationText item =
     (if presentation item \<noteq> [] then '' ('' @ presentation item @ '')'' else [])"

definition contentText :: "cart_line \<Rightarrow> string" where
  "contentText item = (if content item \<noteq> [] then '' - '' @ content item else [])"

definition itemTotal :: "cart_line \<Rightarrow> jsnum" where
  "itemTotal item = js_mul (price item) (Num (of_nat (quantity item)))"

fun summary_loop ::
  "(jsnum \<Rightarrow> string) \<Rightarrow> (string \<times> cart_line) list \<Rightarrow> jsnum \<times> summary_node list
     \<Rightarrow> jsnum \<times> summary_node list" where
  "summary_loop fmt [] acc = acc"
| "summary_loop fmt ((key, item) # rest) (total', nodes) =
     summary_loop fmt rest
       (js_add total' (itemTotal item),
        nodes @ [SummaryItem
          (name item @ presentationText item @ contentText item
             @ '' ('' @ string_of_nat (quantity item) @ '')'')
          (fmt (itemTotal item))])"

text \<open>
  What one call of \<^verbatim>\<open>updateSummary\<close> computes from the cart: the final value of its
  variable \<^verbatim>\<open>total\<close>, the children of the summary list, the text of the total and
  the \<^verbatim>\<open>disabled\<close> flag of the checkout button.
\<close>

definition compute_summary ::
  "(jsnum \<Rightarrow> string) \<Rightarrow> (string \<times> cart_line) list
     \<Rightarrow> jsnum \<times> summary_node list \<times> string \<times> bool" where
  "compute_summary fmt c =
     (let cartKeys = map fst c
      in if length cartKeys = 0
         then (Num 0, [EmptyMessage], ''Total: $0.00'', True)
         else (let (total', nodes) = summary_loop fmt c (Num 0, [])
               in (total', nodes, ''Total: '' @ fmt total', False)))"

definition summary_total :: "(jsnum \<Rightarrow> string) \<Rightarrow> (string \<times> cart_line) list \<Rightarrow> jsnum" where
  "summary_total fmt c = fst (compute_summary fmt c)"

definition updateSummary :: "(jsnum \<Rightarrow> string) \<Rightarrow> page \<Rightarrow> page" where
  "updateSummary fmt st =
     (let (total', nodes, text, disabled) = compute_summary fmt (cart st)
      in st\<lparr>summaryList := nodes, summaryTotal := text, checkout_disabled := disabled,
             summaryTotal_empty := (total' = Num 0)\<rparr>)"

subsection \<open>The add and remove buttons\<close>

text \<open>
  \<^verbatim>\<open>`${id}-${presentation}`\<close>. Every key holds a \<open>-\<close>, which no property of
  \<^verbatim>\<open>Object.prototype\<close> does, so \<^verbatim>\<open>cart[uniqueKey]\<close> is an own property of the cart
  or \<^verbatim>\<open>undefined\<close>.
\<close>

definition item_presentation :: "product_item \<Rightarrow> string" where
  "item_presentation item = (case data_presentacion item of None \<Rightarrow> [] | Some s \<Rightarrow> s)"

definition item_content :: "product_item \<Rightarrow> string" where
  "item_content item = (case data_contenido item of None \<Rightarrow> [] | Some s \<Rightarrow> s)"

definition uniqueKey :: "product_item \<Rightarrow> string" where
  "uniqueKey item = data_id item @ ''-'' @ item_presentation item"

definition new_line :: "product_item \<Rightarrow> cart_line" where
  "new_line item =
     \<lparr>name = data_nombre item, price = parsePrice (data_precio item),
      presentation = item_presentation item, content = item_content item, quantity = 0\<rparr>"

text \<open>
  The click handler of the add button of product \<open>i\<close>. A missing line is created with
  quantity \<open>0\<close> and then incremented; \<open>AList.update\<close> writes the incremented line where
  the key is, or after the last line when the key is new, as the assignment to a new
  property does.
\<close>

definition add_click :: "(jsnum \<Rightarrow> string) \<Rightarrow> nat \<Rightarrow> page \<Rightarrow> page" where
  "add_click fmt i st =
     (if i < length (productItems st)
      then (let item = productItems st ! i;
                key = uniqueKey item;
                line0 = (case map_of (cart st) key of None \<Rightarrow> new_line item | Some l \<Rightarrow> l);
                line1 = line0\<lparr>quantity := js_inc (quantity line0)\<rparr>;
                item1 = item\<lparr>quantity_display := string_of_nat (quantity line1)\<rparr>
            in updateSummary fmt
                 (st\<lparr>cart := AList.update key line1 (cart st),
                     productItems := (productItems st)[i := item1]\<rparr>))
      else st)"

text \<open>
  The click handler of the remove button of product \<open>i\<close>: nothing at all happens
  unless the line exists with a positive quantity.
\<close>

definition remove_click :: "(jsnum \<Rightarrow> string) \<Rightarrow> nat \<Rightarrow> page \<Rightarrow> page" where
  "remove_click fmt i st =
     (if i < length (productItems st)
      then (let item = productItems st ! i;
                key = uniqueKey item
            in case map_of (cart st) key of
                 None \<Rightarrow> st
               | Some line0 \<Rightarrow>
                   if quantity line0 > 0
                   then (let line1 = line0\<lparr>quantity := quantity line0 - 1\<rparr>;
                             cart1 = AList.update key line1 (cart st);
                             cart2 = (if quantity line1 = 0 then AList.delete key cart1 else cart1);
                             shown = (case map_of cart2 key of
                                        None \<Rightarrow> string_of_nat 0
                                      | Some l \<Rightarrow> string_of_nat (quantity l));
                             item1 = item\<lparr>quantity_display := shown\<rparr>
                         in updateSummary fmt
                              (st\<lparr>cart := cart2, productItems := (productItems st)[i := item1]\<rparr>))
                   else st)
      else st)"

subsection \<open>The checkout button\<close>

text \<open>\<^verbatim>\<open>Object.keys(cart).forEach(key => delete cart[key])\<close>.\<close>

definition clear_cart :: "(string \<times> cart_line) list \<Rightarrow> (string \<times> cart_line) list" where
  "clear_cart c = foldl (\<lambda>acc key. AList.delete key acc) c (map fst c)"

definition checkout_click :: "(jsnum \<Rightarrow> string) \<Rightarrow> page \<Rightarrow> page" where
  "checkout_click fmt st =
     (let st1 = st\<lparr>alerts := alerts st
                      @ [CHR 0xA1 # ''Compra finalizada! Total: '' @ summaryTotal st]\<rparr>;
          st2 = updateSummary fmt (st1\<lparr>cart := clear_cart (cart st1)\<rparr>)
      in st2\<lparr>productItems := map (\<lambda>item. item\<lparr>quantity_display := ''0''\<rparr>) (productItems st2)\<rparr>)"

subsection \<open>The search box\<close>

text \<open>
  \<^verbatim>\<open>toLowerCase\<close> on code units below 256: the letters A to Z and the capital letters
  of Latin-1 (U+00C0 to U+00DE without the multiplication sign U+00D7) move up by 32,
  every other character stays.
\<close>

definition lower_char :: "char \<Rightarrow> char" where
  "lower_char c =
     (let n = (of_char c :: nat)
      in if (65 \<le> n \<and> n \<le> 90) \<or> (192 \<le> n \<and> n \<le> 222 \<and> n \<noteq> 215)
         then char_of (n + 32) else c)"

definition toLowerCase :: "string \<Rightarrow> string" where
  "toLowerCase s = map lower_char s"

text \<open>\<^verbatim>\<open>s.includes(t)\<close>: \<open>t\<close> starts at some position of \<open>s\<close>.\<close>

fun js_includes :: "string \<Rightarrow> string \<Rightarrow> bool" where
  "js_includes [] t = (t = [])"
| "js_includes (c # s) t = (prefix t (c # s) \<or> js_includes s t)"

definition search_input :: "string \<Rightarrow> page \<Rightarrow> page" where
  "search_input query st =
     (let searchTerm = toLowerCase query
      in st\<lparr>productItems :=
               map (\<lambda>item. item\<lparr>hidden := \<not> js_includes (toLowerCase (data_nombre item)) searchTerm\<rparr>)
                   (productItems st)\<rparr>)"

subsection \<open>Sequences of events\<close>

text \<open>
  The events the script listens to. A disabled button dispatches no click, so a click
  on the checkout button reaches its handler only while the button is enabled.
\<close>

datatype event = AddClick nat | RemoveClick nat | CheckoutClick | SearchInput string

fun step :: "(jsnum \<Rightarrow> string) \<Rightarrow> page \<Rightarrow> event \<Rightarrow> page" where
  "step fmt st (AddClick i) = add_click fmt i st"
| "step fmt st (RemoveClick i) = remove_click fmt i st"
| "step fmt st CheckoutClick = (if checkout_disabled st then st else checkout_click fmt st)"
| "step fmt st (SearchInput query) = search_input query st"

definition run :: "(jsnum \<Rightarrow> string) \<Rightarrow> event list \<Rightarrow> page \<Rightarrow> page" where
  "run fmt evs st = foldl (step fmt) st evs"

text \<open>The invariant of the cart: every line it holds has a quantity of at least one.\<close>

definition cart_inv :: "(string \<times> cart_line) list \<Rightarrow> bool" where
  "cart_inv c = list_all (\<lambda>(key, item). 1 \<le> quantity item) c"

subsection \<open>A page to run the handlers on\<close>

text \<open>
  Two products that share the id \<open>7\<close> and differ in their presentation, a stand-in
  for the formatter, four clicks, and the line that the two clicks on the first add
  button leave in the cart.
\<close>

definition demo_format :: "jsnum \<Rightarrow> string" where
  "demo_format n = (case n of NaN \<Rightarrow> ''NaN'' | Num r \<Rightarrow> ''$'')"

definition demo_page :: page where
  "demo_page =
     \<lparr>productItems =
        [\<lparr>data_id = ''7'', data_nombre = ''Chocolate'', data_presentacion = Some ''500g'',
          data_contenido = None, data_precio = Some ''$1.234,50'',
          quantity_display = ''0'', hidden = False\<rparr>,
         \<lparr>data_id = ''7'', data_nombre = ''Yerba'', data_presentacion = Some ''1kg'',
          data_contenido = Some ''suave'', data_precio = Some ''10'',
          quantity_display = ''0'', hidden = False\<rparr>],
      cart = [], summaryList = [], summaryTotal = [], summaryTotal_empty = False,
      checkout_disabled = False, alerts = []\<rparr>"

definition demo_events :: "event list" where
  "demo_events = [AddClick 0, AddClick 0, RemoveClick 1, AddClick 1]"

definition demo_line :: cart_line where
  "demo_line = \<lparr>name = ''Chocolate'', price = Num (2469 / 2), presentation = ''500g'',
                 content = [], quantity = 2\<rparr>"



section \<open>Properties of parsePrice\<close>

subsection \<open>Cleaning, replacing and reading\<close>

lemma not_digit_comma [simp]: "\<not> is_digit CHR '',''" "\<not> is_digit CHR ''.''"
  by (simp_all add: is_digit_def)

lemma cleanedPrice_append [simp]: "cleanedPrice (a @ b) = cleanedPrice a @ cleanedPrice b"
  by (simp add: cleanedPrice_def)

lemma cleanedPrice_comma [simp]: "cleanedPrice (CHR '','' # s) = CHR '','' # cleanedPrice s"
  by (simp add: cleanedPrice_def)

lemma cleanedPrice_no_comma: "CHR '','' \<notin> set s \<Longrightarrow> cleanedPrice s = filter is_digit s"
  unfolding cleanedPrice_def by (induction s) auto

lemma cleanedPrice_chars: "c \<in> set (cleanedPrice s) \<Longrightarrow> is_digit c \<or> c = CHR '',''"
  by (auto simp: cleanedPrice_def)

lemma replace_comma_first:
  "CHR '','' \<notin> set a \<Longrightarrow> replace_comma (a @ CHR '','' # r) = a @ CHR ''.'' # r"
  by (induction a) auto

lemma replace_comma_none: "CHR '','' \<notin> set s \<Longrightarrow> replace_comma s = s"
  by (induction s) auto

lemma set_replace_comma: "set (replace_comma s) \<subseteq> insert CHR ''.'' (set s)"
  by (induction s) auto

lemma finalPrice_chars: "c \<in> set (finalPrice s) \<Longrightarrow> is_digit c \<or> c = CHR '','' \<or> c = CHR ''.''"
  using set_replace_comma [of "cleanedPrice s"] cleanedPrice_chars [of c s]
  by (auto simp: finalPrice_def)

lemma takeWhile_digits_stop:
  "\<forall>d\<in>set a. is_digit d \<Longrightarrow> \<not> is_digit c \<Longrightarrow> takeWhile is_digit (a @ c # r) = a"
  by (induction a) auto

lemma dropWhile_digits_stop:
  "\<forall>d\<in>set a. is_digit d \<Longrightarrow> \<not> is_digit c \<Longrightarrow> dropWhile is_digit (a @ c # r) = c # r"
  by (induction a) auto

lemma takeWhile_digits_all: "\<forall>d\<in>set a. is_digit d \<Longrightarrow> takeWhile is_digit a = a"
  by (induction a) auto

lemma dropWhile_digits_all: "\<forall>d\<in>set a. is_digit d \<Longrightarrow> dropWhile is_digit a = []"
  by (induction a) auto

lemma foldl_digits_acc:
  "foldl (\<lambda>acc c. 10 * acc + digit_val c) n b
     = n * 10 ^ length b + foldl (\<lambda>acc c. 10 * acc + digit_val c) 0 b"
proof (induction b arbitrary: n)
  case Nil
  show ?case by simp
next
  case (Cons c b)
  let ?f = "\<lambda>acc c. 10 * acc + digit_val c"
  have s1: "foldl ?f (10 * n + digit_val c) b
              = (10 * n + digit_val c) * 10 ^ length b + foldl ?f 0 b"
    by (rule Cons.IH)
  have s2: "foldl ?f (10 * 0 + digit_val c) b
              = (10 * 0 + digit_val c) * 10 ^ length b + foldl ?f 0 b"
    by (rule Cons.IH)
  show ?case
    unfolding foldl_Cons s1 s2 by (simp add: algebra_simps)
qed

lemma digits_to_nat_append:
  "digits_to_nat (a @ b) = digits_to_nat a * 10 ^ length b + digits_to_nat b"
  by (simp add: digits_to_nat_def foldl_digits_acc [of "foldl _ _ a"])

lemma decimal_value_denoted: "decimal_value ip fp = denoted_value ip fp"
  by (simp add: decimal_value_def denoted_value_def digits_to_nat_append add_divide_distrib)

lemma digits_to_nat_Nil [simp]: "digits_to_nat [] = 0"
  by (simp add: digits_to_nat_def)

lemma denoted_value_Nil [simp]: "denoted_value [] [] = 0"
  by (simp add: denoted_value_def)

text \<open>What \<open>parseFloat\<close> reads from digits, a dot, digits and then anything that is no digit.\<close>

lemma parseFloat_point:
  assumes "\<forall>d\<in>set a. is_digit d" and "\<forall>d\<in>set b. is_digit d"
    and "r = [] \<or> \<not> is_digit (hd r)"
  shows "parseFloat (a @ CHR ''.'' # b @ r) =
           (if a = [] \<and> b = [] then NaN else Num (denoted_value a b))"
proof -
  have tb: "takeWhile is_digit (b @ r) = b"
  proof (cases r)
    case Nil
    then show ?thesis using assms(2) by (simp add: takeWhile_digits_all)
  next
    case (Cons c r')
    then show ?thesis using assms(2,3) by (simp add: takeWhile_digits_stop)
  qed
  show ?thesis
    using assms(1) tb
    by (simp add: parseFloat_def takeWhile_digits_stop dropWhile_digits_stop Let_def
        decimal_value_denoted)
qed

lemma parseFloat_digits:
  assumes "\<forall>d\<in>set a. is_digit d"
  shows "parseFloat a = (if a = [] then NaN else Num (of_nat (digits_to_nat a)))"
  using assms by (simp add: parseFloat_def takeWhile_digits_all dropWhile_digits_all Let_def)

lemma parsePrice_of_final:
  "parsePrice (Some s) =
     (if s = [] \<or> parseFloat (finalPrice s) = NaN then Num 0 else parseFloat (finalPrice s))"
  by (cases "parseFloat (finalPrice s)") (simp_all add: parsePrice_def Let_def)

subsection \<open>Claims about parsePrice\<close>

text \<open>
  C3. A price text with a single comma, \<open>ip,fp\<close>, whatever else stands around its
  digits (thousands separators, a currency symbol), parses to the decimal number it
  denotes: the digits of \<open>ip\<close> as integer part and the digits of \<open>fp\<close> as
  decimals. So \<^verbatim>\<open>parsePrice("$1.234,50")\<close> is \<open>1234.50\<close>.
\<close>
theorem parsePrice_decimal_comma:
  assumes "CHR '','' \<notin> set ip" and "CHR '','' \<notin> set fp"
  shows "parsePrice (Some (ip @ '','' @ fp))
           = Num (denoted_value (filter is_digit ip) (filter is_digit fp))"
proof -
  have "finalPrice (ip @ '','' @ fp) = filter is_digit ip @ CHR ''.'' # filter is_digit fp @ []"
    using assms by (simp add: finalPrice_def cleanedPrice_no_comma replace_comma_first)
  moreover have "parseFloat (filter is_digit ip @ CHR ''.'' # filter is_digit fp @ []) =
      (if filter is_digit ip = [] \<and> filter is_digit fp = [] then NaN
       else Num (denoted_value (filter is_digit ip) (filter is_digit fp)))"
    by (rule parseFloat_point) simp_all
  ultimately show ?thesis
    by (simp add: parsePrice_of_final)
qed

theorem parsePrice_decimal_comma_witness:
  "CHR '','' \<notin> set ''$1.234'' \<and> CHR '','' \<notin> set ''50''
   \<and> parsePrice (Some ''$1.234,50'') = Num (2469 / 2)"
  using parsePrice_decimal_comma [of "''$1.234''" "''50''"]
  by (simp add: denoted_value_def digits_to_nat_def digit_val_def is_digit_def)

text \<open>
  C4, as stated, fails: a dot is not read as a decimal separator. \<^verbatim>\<open>"12.50"\<close>
  parses to \<open>1250\<close>, while \<^verbatim>\<open>"12,50"\<close> parses to \<open>12.5\<close>.
\<close>

theorem parsePrice_dot_counterexample:
  "parsePrice (Some ''12.50'') = Num 1250 \<and> parsePrice (Some ''12,50'') = Num (25 / 2)
   \<and> parsePrice (Some ''12.50'') \<noteq> parsePrice (Some ''12,50'')"
  by (simp add: parsePrice_def finalPrice_def cleanedPrice_def is_digit_def parseFloat_def
      decimal_value_def digits_to_nat_def digit_val_def)

text \<open>
  C4, amended. The dot is removed with every other character that is neither a digit
  nor a comma: a text without a comma parses to the integer that its digits alone
  denote.
\<close>

theorem parsePrice_dot_dropped:
  assumes "CHR '','' \<notin> set s"
  shows "parsePrice (Some s) = Num (of_nat (digits_to_nat (filter is_digit s)))"
proof -
  have "finalPrice s = filter is_digit s"
    using assms by (simp add: finalPrice_def cleanedPrice_no_comma replace_comma_none)
  then show ?thesis
    by (simp add: parsePrice_of_final parseFloat_digits)
qed

theorem parsePrice_dot_dropped_witness:
  "CHR '','' \<notin> set ''12.50'' \<and> parsePrice (Some ''12.50'') = Num 1250"
  using parsePrice_dot_dropped [of "''12.50''"]
  by (simp add: digits_to_nat_def digit_val_def is_digit_def)

text \<open>
  C5. \<^verbatim>\<open>parsePrice\<close> of a missing value, of the empty string and of \<^verbatim>\<open>"abc"\<close> is
  \<open>0\<close>; so is the price of every text whose cleaned form \<^verbatim>\<open>parseFloat\<close> cannot
  read; and no argument at all gives \<open>NaN\<close>.
\<close>
theorem parsePrice_never_NaN:
  "parsePrice None = Num 0 \<and> parsePrice (Some []) = Num 0 \<and> parsePrice (Some ''abc'') = Num 0
   \<and> (parseFloat (finalPrice s) = NaN \<longrightarrow> parsePrice (Some s) = Num 0)
   \<and> \<not> isNaN (parsePrice x) \<and> parsePrice x \<noteq> NaN"
proof -
  have none: "parsePrice None = Num 0" and nil: "parsePrice (Some []) = Num 0"
    by (simp_all add: parsePrice_def)
  have abc: "parsePrice (Some ''abc'') = Num 0"
    by (simp add: parsePrice_def finalPrice_def cleanedPrice_def is_digit_def parseFloat_def)
  have bad: "parseFloat (finalPrice s) = NaN \<longrightarrow> parsePrice (Some s) = Num 0"
    by (simp add: parsePrice_of_final)
  have nn: "parsePrice x \<noteq> NaN"
  proof (cases x)
    case None
    then show ?thesis by (simp add: parsePrice_def)
  next
    case (Some a)
    then show ?thesis by (simp add: parsePrice_of_final)
  qed
  then have "\<not> isNaN (parsePrice x)"
    by (cases "parsePrice x") simp_all
  with none nil abc bad nn show ?thesis
    by blast
qed

theorem parsePrice_never_NaN_witness:
  "parseFloat (finalPrice ''abc'') = NaN \<and> parsePrice (Some ''abc'') = Num 0
   \<and> \<not> isNaN (parsePrice (Some ''$ a.b,c''))"
  using parsePrice_never_NaN [of "''abc''" "Some ''$ a.b,c''"]
  by (simp add: finalPrice_def cleanedPrice_def is_digit_def parseFloat_def)

text \<open>
  C10. Only the first comma of the cleaned text becomes a dot. When the cleaned text
  has a second comma, \<open>a,b,rest\<close>, the price is the number \<open>a.b\<close>: reading stops at
  the second comma and \<open>rest\<close> is lost. A text that cleans to \<^verbatim>\<open>1,234,50\<close> has the
  price \<open>1.234\<close>.
\<close>
theorem parsePrice_second_comma:
  assumes "cleanedPrice s = a @ '','' @ b @ '','' @ rest"
    and "CHR '','' \<notin> set a" and "CHR '','' \<notin> set b"
  shows "finalPrice s = a @ ''.'' @ b @ '','' @ rest \<and> parsePrice (Some s) = Num (denoted_value a b)"
proof -
  have da: "\<forall>d\<in>set a. is_digit d" and db: "\<forall>d\<in>set b. is_digit d"
    using cleanedPrice_chars [of _ s] assms by auto
  have fin: "finalPrice s = a @ CHR ''.'' # b @ (CHR '','' # rest)"
    using assms(1,2) by (simp add: finalPrice_def replace_comma_first)
  have "parseFloat (a @ CHR ''.'' # b @ (CHR '','' # rest)) =
      (if a = [] \<and> b = [] then NaN else Num (denoted_value a b))"
    using da db by (rule parseFloat_point) simp
  moreover have "s \<noteq> []"
    using assms(1) by (auto simp: cleanedPrice_def)
  ultimately show ?thesis
    using fin by (simp add: parsePrice_of_final)
qed

theorem parsePrice_second_comma_witness:
  "cleanedPrice ''$1,234,50'' = ''1'' @ '','' @ ''234'' @ '','' @ ''50''
   \<and> CHR '','' \<notin> set ''1'' \<and> CHR '','' \<notin> set ''234''
   \<and> finalPrice ''$1,234,50'' = ''1.234,50''
   \<and> parsePrice (Some ''$1,234,50'') = Num (617 / 500)"
  using parsePrice_second_comma [of "''$1,234,50''" "''1''" "''234''" "''50''"]
  by (simp add: cleanedPrice_def is_digit_def denoted_value_def digits_to_nat_def digit_val_def)


section \<open>Properties of the cart\<close>

subsection \<open>Rounding\<close>

lemma ulp_exp_small: "n < 2 ^ 53 \<Longrightarrow> ulp_exp n = 0"
  by (simp add: ulp_exp.simps)

lemma ulp_exp_le: "n < 2 ^ (53 + i) \<Longrightarrow> ulp_exp n \<le> i"
proof (induction i arbitrary: n)
  case 0
  then show ?case by (simp add: ulp_exp_small)
next
  case (Suc i)
  show ?case
  proof (cases "n < 2 ^ 53")
    case True
    then show ?thesis by (simp add: ulp_exp_small)
  next
    case False
    have "(2::nat) ^ (53 + Suc i) = 2 ^ (53 + i) * 2"
      by (simp only: add_Suc_right power_Suc mult.commute [of 2])
    with Suc.prems have "n < 2 ^ (53 + i) * 2"
      by (simp only:)
    then have "n div 2 < 2 ^ (53 + i)"
      by (rule less_mult_imp_div_less)
    then have "ulp_exp (n div 2) \<le> i"
      by (rule Suc.IH)
    then show ?thesis
      using False by (subst ulp_exp.simps) (simp only: if_False Suc_le_mono)
  qed
qed


lemma round_half_even_of_int [simp]: "round_half_even (of_int z) = z"
  by (simp add: round_half_even_def)

text \<open>A number that is a binary64 value already is its own Number value.\<close>

lemma binary64_dyadic:
  assumes "m < 2 ^ 53" and "j \<le> 1074"
  shows "binary64 (of_nat m / 2 ^ j) = of_nat m / 2 ^ j"
proof -
  define i where "i = 1074 - j"
  define n where "n = m * 2 ^ i"
  define k where "k = ulp_exp n"
  have ij: "j + i = 1074"
    using assms(2) by (simp add: i_def)
  have pw: "(2::rat) ^ 1074 = 2 ^ j * 2 ^ i"
    unfolding power_add [symmetric] ij ..
  have a: "\<bar>of_nat m / 2 ^ j\<bar> * 2 ^ 1074 = (of_nat n :: rat)"
    unfolding pw by (simp add: n_def)
  have "m * 2 ^ i < 2 ^ 53 * 2 ^ i"
    using assms(1) by simp
  then have nlt: "n < 2 ^ (53 + i)"
    by (simp only: n_def power_add)
  then have ki: "k \<le> i"
    unfolding k_def by (rule ulp_exp_le)
  have "(2::nat) ^ i = 2 ^ (i - k) * 2 ^ k"
    using ki by (simp flip: power_add)
  then have n_split: "n = (m * 2 ^ (i - k)) * 2 ^ k"
    by (simp only: n_def mult.assoc)
  have nrat: "(of_nat n :: rat) = of_nat (m * 2 ^ (i - k)) * 2 ^ k"
    by (subst n_split) (simp only: of_nat_mult of_nat_power of_nat_numeral)
  then have quot: "(of_nat n :: rat) / 2 ^ k = of_int (int (m * 2 ^ (i - k)))"
    by simp
  have m_eq: "of_int (round_half_even ((of_nat n :: rat) / 2 ^ k)) * (2::rat) ^ k = of_nat n"
    unfolding quot round_half_even_of_int using nrat by simp
  have "(2::nat) ^ (53 + i) \<le> 2 ^ 2098"
    by (rule power_increasing) (simp_all add: i_def)
  with nlt have "n < 2 ^ 2098"
    by (rule less_le_trans)
  then have "(of_nat n :: rat) < of_nat (2 ^ 2098)"
    by (simp only: of_nat_less_iff)
  then have fin: "\<not> (2::rat) ^ 2098 \<le> of_nat n"
    by (simp only: of_nat_power of_nat_numeral not_le)
  have fl: "nat \<lfloor>(of_nat n :: rat)\<rfloor> = n"
    by simp
  have "binary64 (of_nat m / 2 ^ j) = sgn (of_nat m / 2 ^ j) * of_nat n / 2 ^ 1074"
    unfolding binary64_def a Let_def fl k_def [symmetric] m_eq
    using fin by (simp only: if_False)
  also have "\<dots> = of_nat m / 2 ^ j"
  proof (cases "m = 0")
    case True
    then show ?thesis by simp
  next
    case False
    then have "sgn (of_nat m / (2::rat) ^ j) = 1"
      by simp
    then show ?thesis
      unfolding pw by (simp add: n_def)
  qed
  finally show ?thesis .
qed

lemma binary64_numeral [simp]:
  "numeral w < (2::nat) ^ 53 \<Longrightarrow> binary64 (numeral w) = numeral w"
  using binary64_dyadic [of "numeral w" 0] by simp

lemma binary64_0 [simp]: "binary64 0 = 0"
  using binary64_dyadic [of 0 0] by simp

lemma binary64_1 [simp]: "binary64 1 = 1"
  using binary64_dyadic [of 1 0] by simp



lemma round_half_even_tie_down:
  assumes "x = of_int m + 1 / 2" and "even m"
  shows "round_half_even x = m"
proof -
  have "\<lfloor>x\<rfloor> = m"
    unfolding assms(1) by (intro floor_unique) simp_all
  then show ?thesis
    using assms by (simp add: round_half_even_def)
qed


subsection \<open>Sums\<close>


lemma compute_summary_unfold:
  "compute_summary fmt c =
     (if c = [] then (Num 0, [EmptyMessage], ''Total: $0.00'', True)
      else (fst (summary_loop fmt c (Num 0, [])), snd (summary_loop fmt c (Num 0, [])),
            ''Total: '' @ fmt (fst (summary_loop fmt c (Num 0, []))), False))"
  by (simp add: compute_summary_def case_prod_unfold Let_def)


subsection \<open>updateSummary\<close>

lemma cart_updateSummary [simp]: "cart (updateSummary fmt st) = cart st"
  by (simp add: updateSummary_def split: prod.splits)

lemma productItems_updateSummary [simp]: "productItems (updateSummary fmt st) = productItems st"
  by (simp add: updateSummary_def split: prod.splits)



lemma updateSummary_empty:
  assumes "cart st = []"
  shows "updateSummary fmt st =
           st\<lparr>summaryList := [EmptyMessage], summaryTotal := ''Total: $0.00'',
              checkout_disabled := True, summaryTotal_empty := True\<rparr>"
  using assms by (simp add: updateSummary_def compute_summary_unfold)

lemma updateSummary_nonempty:
  assumes "cart st \<noteq> []"
  shows "summaryTotal (updateSummary fmt st) = ''Total: '' @ fmt (summary_total fmt (cart st))"
    and "\<not> checkout_disabled (updateSummary fmt st)"
    and "summaryList (updateSummary fmt st) = snd (summary_loop fmt (cart st) (Num 0, []))"
  using assms
  by (simp_all add: updateSummary_def compute_summary_unfold summary_total_def)

subsection \<open>The cart under the handlers\<close>

lemma js_inc_pos [simp]: "0 < js_inc q"
  by (simp add: js_inc_def)

lemma cart_inv_update: "cart_inv c \<Longrightarrow> 0 < quantity l \<Longrightarrow> cart_inv (AList.update k l c)"
  by (induction c) (auto simp: cart_inv_def)

lemma cart_inv_delete: "cart_inv c \<Longrightarrow> cart_inv (AList.delete k c)"
  by (induction c) (auto simp: cart_inv_def)

lemma cart_add_click:
  "cart (add_click fmt i st) =
     (if i < length (productItems st)
      then (let item = productItems st ! i; key = uniqueKey item;
                line0 = (case map_of (cart st) key of None \<Rightarrow> new_line item | Some l \<Rightarrow> l)
            in AList.update key (line0\<lparr>quantity := js_inc (quantity line0)\<rparr>) (cart st))
      else cart st)"
  by (simp add: add_click_def Let_def)

lemma cart_remove_click:
  "cart (remove_click fmt i st) =
     (if i < length (productItems st)
      then (let key = uniqueKey (productItems st ! i)
            in case map_of (cart st) key of
                 None \<Rightarrow> cart st
               | Some line0 \<Rightarrow>
                   if quantity line0 = 0 then cart st
                   else if quantity line0 = 1 then AList.delete key (cart st)
                   else AList.update key (line0\<lparr>quantity := quantity line0 - 1\<rparr>) (cart st))
      else cart st)"
  by (auto simp: remove_click_def Let_def AList.delete_update_same split: option.splits)

lemma foldl_delete:
  "foldl (\<lambda>acc key. AList.delete key acc) c ks = filter (\<lambda>p. fst p \<notin> set ks) c"
proof (induction ks arbitrary: c)
  case Nil
  show ?case by simp
next
  case (Cons k ks)
  have "AList.delete k c = filter (\<lambda>p. fst p \<noteq> k) c"
    by (induction c) auto
  then show ?case
    by (simp add: Cons.IH)
qed

lemma clear_cart_Nil [simp]: "clear_cart c = []"
  by (simp add: clear_cart_def foldl_delete)

lemma cart_checkout_click [simp]: "cart (checkout_click fmt st) = []"
  by (simp add: checkout_click_def Let_def)

lemma cart_search_input [simp]: "cart (search_input query st) = cart st"
  by (simp add: search_input_def Let_def)

lemma cart_inv_step: "cart_inv (cart st) \<Longrightarrow> cart_inv (cart (step fmt st e))"
proof (cases e)
  case (AddClick i)
  assume "cart_inv (cart st)"
  then show ?thesis
    by (simp add: AddClick cart_add_click Let_def cart_inv_update)
next
  case (RemoveClick i)
  assume "cart_inv (cart st)"
  then show ?thesis
    by (auto simp: RemoveClick cart_remove_click Let_def cart_inv_update cart_inv_delete
        split: option.splits)
next
  case CheckoutClick
  assume "cart_inv (cart st)"
  then show ?thesis
    by (simp add: CheckoutClick cart_inv_def)
next
  case (SearchInput q)
  assume "cart_inv (cart st)"
  then show ?thesis
    by (simp add: SearchInput)
qed

lemma cart_inv_run: "cart_inv (cart st) \<Longrightarrow> cart_inv (cart (run fmt evs st))"
  unfolding run_def
  by (induction evs arbitrary: st) (simp_all add: cart_inv_step)

subsection \<open>The summary follows the cart\<close>



subsection \<open>The handlers on the page with two products\<close>

lemma string_of_nat_digit: "n < 10 \<Longrightarrow> string_of_nat n = [digit_char n]"
  by (simp add: string_of_nat.simps)

lemma binary64_half_2469: "binary64 (2469 / 2) = 2469 / 2"
  using binary64_dyadic [of 2469 1] by simp

lemmas demo_defs = demo_page_def demo_format_def run_def add_click_def remove_click_def
  checkout_click_def search_input_def updateSummary_def compute_summary_def summary_total_def
  uniqueKey_def item_presentation_def item_content_def new_line_def js_inc_def itemTotal_def
  presentationText_def contentText_def string_of_nat_digit digit_char_def clear_cart_def
  toLowerCase_def lower_char_def
  parsePrice_def finalPrice_def cleanedPrice_def is_digit_def parseFloat_def
  decimal_value_def digits_to_nat_def digit_val_def
  is_infinite_def binary64_half_2469

lemma demo_run:
  "run demo_format demo_events demo_page =
     \<lparr>productItems =
        [\<lparr>data_id = ''7'', data_nombre = ''Chocolate'', data_presentacion = Some ''500g'',
          data_contenido = None, data_precio = Some ''$1.234,50'',
          quantity_display = ''2'', hidden = False\<rparr>,
         \<lparr>data_id = ''7'', data_nombre = ''Yerba'', data_presentacion = Some ''1kg'',
          data_contenido = Some ''suave'', data_precio = Some ''10'',
          quantity_display = ''1'', hidden = False\<rparr>],
      cart =
        [(''7-500g'', demo_line),
         (''7-1kg'', \<lparr>name = ''Yerba'', price = Num 10, presentation = ''1kg'',
                       content = ''suave'', quantity = 1\<rparr>)],
      summaryList = [SummaryItem ''Chocolate (500g) (2)'' ''$'',
                     SummaryItem ''Yerba (1kg) - suave (1)'' ''$''],
      summaryTotal = ''Total: $'', summaryTotal_empty = False,
      checkout_disabled = False, alerts = []\<rparr>"
  by (simp add: demo_defs demo_events_def demo_line_def)

lemma demo_page_cart: "cart demo_page = []"
  by (simp add: demo_page_def)

subsection \<open>The handlers on the page with three products\<close>











subsection \<open>Searching\<close>

lemma js_includes_sublist: "js_includes s t = sublist t s"
  by (induction s) (simp_all add: sublist_Cons_right)

lemma char_of_eq:
  "(char_of (n::nat) = c) = (n mod 256 = of_char c)"
  "(c = char_of (n::nat)) = (n mod 256 = of_char c)"
proof -
  show a: "(char_of n = c) = (n mod 256 = of_char c)"
    by (auto simp: char_of_eq_iff take_bit_eq_mod)
  show "(c = char_of n) = (n mod 256 = of_char c)"
    using a by (auto simp del: char_of_mod_256)
qed

subsection \<open>Claims about the cart, the summary and the search\<close>

text \<open>
  C1. From a page whose cart is empty, after any sequence of clicks on add, remove and
  checkout buttons (and of searches), every line that the cart holds has a quantity of
  at least one: no line with quantity zero is left behind by a handler.
\<close>
theorem cart_quantity_invariant:
  assumes "cart st0 = []" and "(key, item) \<in> set (cart (run fmt evs st0))"
  shows "1 \<le> quantity item"
proof -
  have "cart_inv (cart st0)"
    using assms(1) by (simp add: cart_inv_def)
  then have "cart_inv (cart (run fmt evs st0))"
    by (rule cart_inv_run)
  then show ?thesis
    using assms(2) by (auto simp: cart_inv_def list_all_iff)
qed

theorem cart_quantity_invariant_witness:
  "cart demo_page = []
   \<and> (''7-500g'', demo_line)
       \<in> set (cart (run demo_format demo_events demo_page))
   \<and> 1 \<le> quantity demo_line"
  using cart_quantity_invariant [of demo_page "''7-500g''" demo_line
      demo_format demo_events]
  by (simp add: demo_run demo_page_cart demo_line_def)



text \<open>
  C6. A click on the remove button of a product whose key is absent from the cart, or
  whose line has quantity zero, changes nothing on the page; so a second click leaves
  the same state as the first.
\<close>
theorem remove_absent_noop:
  assumes "case map_of (cart st) (uniqueKey (productItems st ! i)) of
             None \<Rightarrow> True | Some line0 \<Rightarrow> quantity line0 = 0"
  shows "remove_click fmt i st = st
       \<and> remove_click fmt i (remove_click fmt i st) = remove_click fmt i st"
proof -
  have "remove_click fmt i st = st"
  proof (cases "map_of (cart st) (uniqueKey (productItems st ! i))")
    case None
    then show ?thesis by (simp add: remove_click_def Let_def)
  next
    case (Some line0)
    with assms have "quantity line0 = 0" by simp
    with Some show ?thesis by (simp add: remove_click_def Let_def)
  qed
  then show ?thesis by simp
qed

theorem remove_absent_noop_witness:
  "(case map_of (cart demo_page) (uniqueKey (productItems demo_page ! 0)) of
      None \<Rightarrow> True | Some line0 \<Rightarrow> quantity line0 = 0)
   \<and> remove_click demo_format 0 demo_page = demo_page
   \<and> remove_click demo_format 0 (remove_click demo_format 0 demo_page)
       = remove_click demo_format 0 demo_page"
  using remove_absent_noop [of demo_page 0 demo_format]
  by (simp add: demo_page_def)

text \<open>
  C7. On the empty cart \<^verbatim>\<open>updateSummary\<close> shows the placeholder message alone, sets
  the total text to \<^verbatim>\<open>Total: $0.00\<close>, computes the total \<open>0\<close> and disables the
  checkout button; on every cart that is not empty it enables the button.
\<close>
theorem render_empty_state:
  "(cart st = [] \<longrightarrow>
      summaryList (updateSummary fmt st) = [EmptyMessage]
      \<and> summaryTotal (updateSummary fmt st) = ''Total: $0.00''
      \<and> summary_total fmt (cart st) = Num 0
      \<and> summaryTotal_empty (updateSummary fmt st)
      \<and> checkout_disabled (updateSummary fmt st))
   \<and> (cart st \<noteq> [] \<longrightarrow> \<not> checkout_disabled (updateSummary fmt st))"
  by (simp add: updateSummary_empty updateSummary_nonempty(2) summary_total_def
      compute_summary_unfold)

theorem render_empty_state_witness:
  "cart demo_page = []
   \<and> summaryList (updateSummary demo_format demo_page) = [EmptyMessage]
   \<and> summaryTotal (updateSummary demo_format demo_page) = ''Total: $0.00''
   \<and> checkout_disabled (updateSummary demo_format demo_page)
   \<and> cart (add_click demo_format 0 demo_page) \<noteq> []
   \<and> \<not> checkout_disabled (updateSummary demo_format (add_click demo_format 0 demo_page))"
  using render_empty_state [of demo_page demo_format]
    render_empty_state [of "add_click demo_format 0 demo_page" demo_format]
  by (simp add: cart_add_click Let_def) (simp add: demo_page_def)

text \<open>
  C8. The click handler of the checkout button, on a cart that is not empty, leaves
  the cart empty, the summary in its empty state and the quantity display of every
  product at \<^verbatim>\<open>0\<close>, whether the product was in the cart or not.
\<close>
theorem checkout_postcondition:
  assumes "cart st \<noteq> []"
  shows "cart (checkout_click fmt st) = []
       \<and> summaryList (checkout_click fmt st) = [EmptyMessage]
       \<and> summaryTotal (checkout_click fmt st) = ''Total: $0.00''
       \<and> checkout_disabled (checkout_click fmt st)
       \<and> length (productItems (checkout_click fmt st)) = length (productItems st)
       \<and> (\<forall>item\<in>set (productItems (checkout_click fmt st)). quantity_display item = ''0'')"
  by (simp add: checkout_click_def Let_def updateSummary_empty)

theorem checkout_postcondition_witness:
  "cart (run demo_format demo_events demo_page) \<noteq> []
   \<and> cart (checkout_click demo_format
        (run demo_format demo_events demo_page)) = []
   \<and> map quantity_display (productItems (checkout_click demo_format
        (run demo_format demo_events demo_page)))
       = [''0'', ''0'']"
  using checkout_postcondition
    [of "run demo_format demo_events demo_page" demo_format]
  by (simp add: demo_run checkout_click_def Let_def)

text \<open>
  C9. After the search handler has run, a product is hidden exactly when its name in
  lower case does not contain the query in lower case; two queries that agree in lower
  case give the same page; the cart and the quantity displays are as they were.
  (\<open>sublist xs ys\<close> says that \<open>ys\<close> is \<open>ps @ xs @ ss\<close> for some \<open>ps\<close> and
  \<open>ss\<close>.)
\<close>
theorem search_filter_correct:
  "cart (search_input query st) = cart st
   \<and> length (productItems (search_input query st)) = length (productItems st)
   \<and> (\<forall>i<length (productItems st).
         hidden (productItems (search_input query st) ! i)
           = (\<not> sublist (toLowerCase query) (toLowerCase (data_nombre (productItems st ! i))))
         \<and> quantity_display (productItems (search_input query st) ! i)
           = quantity_display (productItems st ! i))
   \<and> (toLowerCase query' = toLowerCase query \<longrightarrow> search_input query' st = search_input query st)"
  by (simp add: search_input_def Let_def js_includes_sublist)

theorem search_filter_correct_witness:
  "(0::nat) < length (productItems demo_page) \<and> (1::nat) < length (productItems demo_page)
   \<and> \<not> hidden (productItems (search_input ''CHOCO'' demo_page) ! 0)
   \<and> hidden (productItems (search_input ''CHOCO'' demo_page) ! 1)
   \<and> toLowerCase ''choco'' = toLowerCase ''CHOCO''
   \<and> search_input ''choco'' demo_page = search_input ''CHOCO'' demo_page"
  using search_filter_correct [of "''CHOCO''" demo_page "''choco''"]
  by (simp add: demo_page_def search_input_def toLowerCase_def lower_char_def char_of_eq)

end
